theory Spec2Isabelle
  imports Main
begin

section \<open>The documentation server script \<^verbatim>\<open>docs/serve_docs.py\<close>\<close>

text \<open>
  The script is a composition of library calls: it constructs a
  \<^verbatim>\<open>socketserver.TCPServer\<close> inside a \<^verbatim>\<open>with\<close> statement, prints a line,
  calls \<^verbatim>\<open>webbrowser.open\<close>, and runs \<^verbatim>\<open>serve_forever\<close> inside a
  \<^verbatim>\<open>try\<close> whose only handler is for \<^verbatim>\<open>KeyboardInterrupt\<close>.  The model
  keeps this control flow as it is written.  What the library calls and the
  operating system do is not in the script: it is supplied by a \<open>world\<close> (the
  outcome of each call, the connections and signals that arrive) and by the state of
  the process, which records every observable effect in a chronological trace.
\<close>

subsection \<open>Values\<close>

text \<open>A file-system path, as the list of its components below the root \<^verbatim>\<open>/\<close>.\<close>

type_synonym path = "string list"

text \<open>A socket address \<^verbatim>\<open>(host, port)\<close>.\<close>

type_synonym address = "string \<times> nat"

text \<open>An HTTP request: its method and its path.\<close>

type_synonym request = "string \<times> string"

text \<open>
  The exceptions that can travel through \<^verbatim>\<open>main\<close>.  \<open>BindError\<close> is the
  \<^verbatim>\<open>OSError\<close> of a failed bind; \<open>OtherError\<close> stands for any other exception.
\<close>

datatype exn = BindError | KeyboardInterrupt | OtherError

text \<open>What is found at a path of the file system.\<close>

datatype node = File string | Dir

text \<open>
  The library calls of \<^verbatim>\<open>main\<close> in which the world may raise an exception: an
  error of the call itself, or an interrupt signal delivered while it runs.
\<close>

datatype call = Startup_print | Browser_launch | Shutdown_print | Shutdown_call

text \<open>
  What arrives while the accept loop runs: a client connection carrying a request, or
  an exception raised inside the loop (\<open>Raise KeyboardInterrupt\<close> is the interrupt
  signal of the user).
\<close>

datatype incoming = Connection request | Raise exn

text \<open>
  The life cycle of the server object: \<open>Created\<close> once the constructor has bound the
  socket, \<open>Listening\<close> inside \<^verbatim>\<open>serve_forever\<close>, \<open>ShuttingDown\<close> once
  \<^verbatim>\<open>shutdown\<close> has been called, \<open>Stopped\<close> once the socket is closed.
\<close>

datatype server_state = Created | Listening | ShuttingDown | Stopped

text \<open>The observable effects, \<open>'r\<close> being the type of HTTP responses.\<close>

datatype 'r event =
    Bound address
  | Printed string
  | Browser_launched string bool
  | Served request 'r
  | Shutdown_called
  | Closed address
  | Traceback exn

text \<open>
  The world of one run.  \<open>base_handler\<close> is the response function of the superclass
  \<^verbatim>\<open>http.server.SimpleHTTPRequestHandler\<close> for a file system and its
  \<^verbatim>\<open>directory\<close> argument; it is a parameter, the class is not part of the script.
\<close>

record 'r world =
  script_file :: path
  filesystem :: "path \<rightharpoonup> node"
  base_handler :: "(path \<rightharpoonup> node) \<Rightarrow> string \<Rightarrow> request \<Rightarrow> 'r"
  bind_permitted :: bool
  browser_launches :: bool
  faults :: "call \<Rightarrow> exn option"
  incoming :: "incoming list"

text \<open>
  The state of the process and of the ports of the machine: the ports that hold a live
  listener, the server object of this process, and the trace of effects so far.
\<close>

record 'r proc =
  ports_in_use :: "nat set"
  server :: "server_state option"
  trace :: "'r event list"

text \<open>
  How a statement ends: it completes, an exception propagates out of it, or it never
  returns (the accept loop waiting for the next connection).
\<close>

datatype status = Normal | Raised exn | Blocked

type_synonym 'r step = "'r proc \<Rightarrow> status \<times> 'r proc"

subsection \<open>Statements of Python\<close>

text \<open>Sequencing: the second statement runs when the first completes.\<close>

definition then_do :: "'r step \<Rightarrow> 'r step \<Rightarrow> 'r step" where
  "then_do f g s = (case f s of (Normal, s') \<Rightarrow> g s' | (r, s') \<Rightarrow> (r, s'))"

text \<open>
  An expression statement: the call is made and its value is dropped; an exception of
  the call propagates.
\<close>

definition expr_stmt :: "('r proc \<Rightarrow> (exn + 'a) \<times> 'r proc) \<Rightarrow> 'r step" where
  "expr_stmt f s = (case f s of (Inl e, s') \<Rightarrow> (Raised e, s') | (Inr v, s') \<Rightarrow> (Normal, s'))"

text \<open>
  \<^verbatim>\<open>try: body except E: handler\<close>: the handler runs when the body raises \<open>E\<close>; any
  other exception propagates.
\<close>

definition try_except :: "'r step \<Rightarrow> exn \<Rightarrow> 'r step \<Rightarrow> 'r step" where
  "try_except body e handler s =
     (case body s of
        (Raised e', s') \<Rightarrow> if e' = e then handler s' else (Raised e', s')
      | (r, s') \<Rightarrow> (r, s'))"

text \<open>
  \<^verbatim>\<open>with ctor as x: body\<close>: when the constructor raises, the block is not entered
  and nothing is released; otherwise the exit action runs when the body is left, by
  completion or by an exception, and an exception of the body propagates after it.
\<close>

definition with_as :: "'r step \<Rightarrow> ('r proc \<Rightarrow> 'r proc) \<Rightarrow> 'r step \<Rightarrow> 'r step" where
  "with_as ctor exit_action body s =
     (case ctor s of
        (Normal, s1) \<Rightarrow>
          (case body s1 of
             (Blocked, s2) \<Rightarrow> (Blocked, s2)
           | (r, s2) \<Rightarrow> (r, exit_action s2))
      | (r, s1) \<Rightarrow> (r, s1))"

text \<open>\<^verbatim>\<open>str(n)\<close> and \<^verbatim>\<open>{n}\<close> in an f-string, for a natural number: its decimal digits.\<close>

fun str_nat :: "nat \<Rightarrow> string" where
  "str_nat n =
     (if n < 10 then [''0123456789'' ! n]
      else str_nat (n div 10) @ [''0123456789'' ! (n mod 10)])"

declare str_nat.simps [simp del]

subsection \<open>The library calls\<close>

text \<open>
  Modelled from the spec: \<^verbatim>\<open>pathlib\<close> is not in the repository.  The parent
  of a path is the directory containing it; the parent of the root is the root.
\<close>

definition parent :: "path \<Rightarrow> path" where
  "parent p = butlast p"

text \<open>Modelled from the spec: \<^verbatim>\<open>str\<close> of a path, its components after \<^verbatim>\<open>/\<close>.\<close>

definition str_path :: "path \<Rightarrow> string" where
  "str_path p = (if p = [] then ''/'' else concat (map (\<lambda>c. ''/'' @ c) p))"

text \<open>
  Modelled from the spec: \<^verbatim>\<open>socketserver.TCPServer\<close> is not in the repository.
  The constructor "fails with a BindError if the port is already in use or the process
  lacks permission to bind it"; otherwise the result is "a listening server bound to"
  the address.
\<close>

definition TCPServer :: "'r world \<Rightarrow> address \<Rightarrow> 'r step" where
  "TCPServer w a s =
     (if snd a \<in> ports_in_use s \<or> \<not> bind_permitted w then (Raised BindError, s)
      else (Normal, s\<lparr>ports_in_use := insert (snd a) (ports_in_use s),
                       server := Some Created,
                       trace := trace s @ [Bound a]\<rparr>))"

text \<open>
  Modelled from the spec: \<^verbatim>\<open>server_close\<close>, which the \<^verbatim>\<open>with\<close> statement calls
  on exit, "closes the listening socket, releases all held resources".
\<close>

definition server_close :: "address \<Rightarrow> 'r proc \<Rightarrow> 'r proc" where
  "server_close a s =
     s\<lparr>ports_in_use := ports_in_use s - {snd a},
       server := Some Stopped,
       trace := trace s @ [Closed a]\<rparr>"

text \<open>
  The built-in \<^verbatim>\<open>print(line)\<close>: the line reaches the output, unless the world raises
  in the call; then nothing is recorded as printed.
\<close>

definition print :: "'r world \<Rightarrow> call \<Rightarrow> string \<Rightarrow> 'r step" where
  "print w c line s =
     (case faults w c of
        Some e \<Rightarrow> (Raised e, s)
      | None \<Rightarrow> (Normal, s\<lparr>trace := trace s @ [Printed line]\<rparr>))"

text \<open>
  Modelled from the spec: \<^verbatim>\<open>webbrowser\<close> is not in the repository.  The call
  "attempts to launch the default system browser pointed at url" and has a result, here
  whether a browser was launched; a failure to launch ("no browser available, headless
  environment") is the result \<open>False\<close>.  The world may also raise in the call.
\<close>

definition webbrowser_open :: "'r world \<Rightarrow> string \<Rightarrow> 'r proc \<Rightarrow> (exn + bool) \<times> 'r proc" where
  "webbrowser_open w u s =
     (case faults w Browser_launch of
        Some e \<Rightarrow> (Inl e, s)
      | None \<Rightarrow>
          (Inr (browser_launches w),
           s\<lparr>trace := trace s @ [Browser_launched u (browser_launches w)]\<rparr>))"

text \<open>
  Modelled from the spec: \<^verbatim>\<open>httpd.shutdown()\<close> "stops the accept loop" and
  "returns control to the caller".  The script calls it after \<^verbatim>\<open>serve_forever\<close> has
  been left.
\<close>

definition shutdown :: "'r world \<Rightarrow> 'r step" where
  "shutdown w s =
     (case faults w Shutdown_call of
        Some e \<Rightarrow> (Raised e, s)
      | None \<Rightarrow> (Normal, s\<lparr>server := Some ShuttingDown, trace := trace s @ [Shutdown_called]\<rparr>))"

subsection \<open>The script\<close>

text \<open>\<^verbatim>\<open>PORT = 8088\<close>\<close>

definition PORT :: nat where
  "PORT = 8088"

text \<open>\<^verbatim>\<open>DIRECTORY = Path(__file__).parent\<close>\<close>

definition DIRECTORY :: "'r world \<Rightarrow> path" where
  "DIRECTORY w = parent (script_file w)"

text \<open>
  \<^verbatim>\<open>class Handler(SimpleHTTPRequestHandler)\<close>: its constructor passes every argument
  on and sets \<^verbatim>\<open>directory=str(DIRECTORY)\<close>.
\<close>

definition Handler :: "'r world \<Rightarrow> request \<Rightarrow> 'r" where
  "Handler w = base_handler w (filesystem w) (str_path (DIRECTORY w))"

text \<open>
  Modelled from the spec: \<^verbatim>\<open>serve_forever\<close> "runs an accept loop: for each incoming
  connection, dispatches to handle_request and writes the resulting response, then
  continues accepting", until an exception is raised in it.  When nothing more arrives
  it waits and does not return.
\<close>

fun accept_loop :: "'r world \<Rightarrow> incoming list \<Rightarrow> 'r step" where
  "accept_loop w [] s = (Blocked, s)"
| "accept_loop w (Connection r # evs) s =
     accept_loop w evs (s\<lparr>trace := trace s @ [Served r (Handler w r)]\<rparr>)"
| "accept_loop w (Raise e # evs) s = (Raised e, s)"

definition serve_forever :: "'r world \<Rightarrow> 'r step" where
  "serve_forever w s = accept_loop w (incoming w) (s\<lparr>server := Some Listening\<rparr>)"

text \<open>The two f-strings of \<^verbatim>\<open>main\<close> and the shutdown line.\<close>

definition url :: string where
  "url = ''http://localhost:'' @ str_nat PORT @ ''/swagger.html''"

definition startup_message :: string where
  "startup_message = ''Serving documentation at http://localhost:'' @ str_nat PORT @ ''/swagger.html''"

definition shutdown_message :: string where
  "shutdown_message = CHR 0x0A # ''Shutting down server...''"

text \<open>
  \<^verbatim>\<open>
  def main():
      with socketserver.TCPServer(("", PORT), Handler) as httpd:
          print(f"Serving documentation at http://localhost:{PORT}/swagger.html")
          webbrowser.open(f"http://localhost:{PORT}/swagger.html")
          try:
              httpd.serve_forever()
          except KeyboardInterrupt:
              print("\nShutting down server...")
              httpd.shutdown()
  \<close>
  The call of \<^verbatim>\<open>webbrowser.open\<close> is an expression statement.
\<close>

definition main :: "'r world \<Rightarrow> 'r step" where
  "main w =
     with_as (TCPServer w ('''', PORT)) (server_close ('''', PORT))
       (then_do (print w Startup_print startup_message)
         (then_do (expr_stmt (webbrowser_open w url))
           (try_except (serve_forever w) KeyboardInterrupt
             (then_do (print w Shutdown_print shutdown_message)
                      (shutdown w)))))"

text \<open>
  How the process ends: it has exited with a status, or it is still running (blocked in
  the accept loop).
\<close>

datatype ending = Exited nat | Running

text \<open>
  The exit status of the interpreter after an uncaught exception: 1, and for an
  uncaught \<^verbatim>\<open>KeyboardInterrupt\<close> the status of a process ended by the interrupt
  signal.
\<close>

definition uncaught_status :: "exn \<Rightarrow> nat" where
  "uncaught_status e = (if e = KeyboardInterrupt then 130 else 1)"

text \<open>A process that has just started, on a machine whose ports \<open>P\<close> are taken.\<close>

definition new_process :: "nat set \<Rightarrow> 'r proc" where
  "new_process P = \<lparr>ports_in_use = P, server = None, trace = []\<rparr>"

text \<open>
  \<^verbatim>\<open>if __name__ == "__main__": main()\<close>.  When \<^verbatim>\<open>main\<close> returns the process
  exits with status 0; when an exception leaves \<^verbatim>\<open>main\<close> the interpreter prints a
  stack trace and exits with a non-zero status.
\<close>

definition script :: "'r world \<Rightarrow> nat set \<Rightarrow> ending \<times> 'r proc" where
  "script w P =
     (case main w (new_process P) of
        (Normal, s) \<Rightarrow> (Exited 0, s)
      | (Raised e, s) \<Rightarrow> (Exited (uncaught_status e), s\<lparr>trace := trace s @ [Traceback e]\<rparr>)
      | (Blocked, s) \<Rightarrow> (Running, s))"

subsection \<open>Auxiliary functions for the proofs\<close>

text \<open>
  The accept loop in closed form: how it ends, and the responses it has written by
  then.
\<close>

fun loop_status :: "incoming list \<Rightarrow> status" where
  "loop_status [] = Blocked"
| "loop_status (Connection r # evs) = loop_status evs"
| "loop_status (Raise e # evs) = Raised e"

fun loop_served :: "'r world \<Rightarrow> incoming list \<Rightarrow> 'r event list" where
  "loop_served w [] = []"
| "loop_served w (Connection r # evs) = Served r (Handler w r) # loop_served w evs"
| "loop_served w (Raise e # evs) = []"


subsection \<open>A sample world\<close>

text \<open>
  The script installed as \<^verbatim>\<open>/srv/docs/serve_docs.py\<close> beside \<^verbatim>\<open>swagger.html\<close>, a
  free port, a browser that launches, and no fault.  Its handler answers with the name
  of the file it would read.
\<close>

definition sample_files :: "path \<rightharpoonup> node" where
  "sample_files =
     [[''srv'', ''docs''] \<mapsto> Dir,
      [''srv'', ''docs'', ''swagger.html''] \<mapsto> File ''<html>OK</html>'']"

definition sample_handler :: "(path \<rightharpoonup> node) \<Rightarrow> string \<Rightarrow> request \<Rightarrow> string" where
  "sample_handler fs dir req = dir @ snd req"

definition sample_world :: "string world" where
  "sample_world =
     \<lparr>script_file = [''srv'', ''docs'', ''serve_docs.py''],
      filesystem = sample_files,
      base_handler = sample_handler,
      bind_permitted = True,
      browser_launches = True,
      faults = (\<lambda>c. None),
      incoming = []\<rparr>"

section \<open>Properties\<close>

subsection \<open>Evaluation lemmas\<close>

lemma str_nat_PORT: "str_nat PORT = ''8088''"
  by (simp add: PORT_def str_nat.simps)

lemma url_eq: "url = ''http://localhost:8088/swagger.html''"
  by (simp add: url_def str_nat_PORT)

lemma startup_message_eq:
  "startup_message = ''Serving documentation at http://localhost:8088/swagger.html''"
  by (simp add: startup_message_def str_nat_PORT)

lemma accept_loop_eq:
  "accept_loop w evs s = (loop_status evs, s\<lparr>trace := trace s @ loop_served w evs\<rparr>)"
  by (induction w evs s rule: accept_loop.induct) simp_all

lemma loop_status_connections:
  "loop_status (map Connection rs @ evs) = loop_status evs"
  by (induction rs) simp_all

lemma loop_served_connections:
  "loop_served w (map Connection rs @ evs) =
     map (\<lambda>r. Served r (Handler w r)) rs @ loop_served w evs"
  by (induction rs) simp_all

lemma loop_status_only_connections: "loop_status (map Connection rs) = Blocked"
  using loop_status_connections [of rs "[]"] by simp

lemma loop_served_only_connections:
  "loop_served w (map Connection rs) = map (\<lambda>r. Served r (Handler w r)) rs"
  using loop_served_connections [of w rs "[]"] by simp

lemmas main_defs = script_def main_def with_as_def then_do_def try_except_def expr_stmt_def
  TCPServer_def server_close_def print_def webbrowser_open_def shutdown_def serve_forever_def
  new_process_def uncaught_status_def accept_loop_eq PORT_def

lemmas sample_defs = sample_world_def sample_handler_def Handler_def DIRECTORY_def parent_def
  str_path_def

lemma sample_world_running:
  "script sample_world {} =
     (Running,
      \<lparr>ports_in_use = {8088}, server = Some Listening,
       trace = [Bound ('''', 8088),
                Printed ''Serving documentation at http://localhost:8088/swagger.html'',
                Browser_launched ''http://localhost:8088/swagger.html'' True]\<rparr>)"
  by (simp add: main_defs sample_world_def url_eq startup_message_eq)




text \<open>The whole run in closed form, one case for each way through \<^verbatim>\<open>main\<close>.\<close>

lemma script_eq:
  "script w P =
    (if 8088 \<in> P \<or> \<not> bind_permitted w
     then (Exited 1, \<lparr>ports_in_use = P, server = None, trace = [Traceback BindError]\<rparr>)
     else case faults w Startup_print of
       Some e \<Rightarrow>
         (Exited (uncaught_status e),
          \<lparr>ports_in_use = P, server = Some Stopped,
           trace = [Bound ('''', 8088), Closed ('''', 8088), Traceback e]\<rparr>)
     | None \<Rightarrow>
        (case faults w Browser_launch of
           Some e \<Rightarrow>
             (Exited (uncaught_status e),
              \<lparr>ports_in_use = P, server = Some Stopped,
               trace = [Bound ('''', 8088), Printed startup_message, Closed ('''', 8088),
                        Traceback e]\<rparr>)
         | None \<Rightarrow>
            (case loop_status (incoming w) of
               Blocked \<Rightarrow>
                 (Running,
                  \<lparr>ports_in_use = insert 8088 P, server = Some Listening,
                   trace = [Bound ('''', 8088), Printed startup_message,
                            Browser_launched url (browser_launches w)]
                         @ loop_served w (incoming w)\<rparr>)
             | Normal \<Rightarrow>
                 (Exited 0,
                  \<lparr>ports_in_use = P, server = Some Stopped,
                   trace = [Bound ('''', 8088), Printed startup_message,
                            Browser_launched url (browser_launches w)]
                         @ loop_served w (incoming w) @ [Closed ('''', 8088)]\<rparr>)
             | Raised e \<Rightarrow>
                 if e \<noteq> KeyboardInterrupt
                 then (Exited 1,
                  \<lparr>ports_in_use = P, server = Some Stopped,
                   trace = [Bound ('''', 8088), Printed startup_message,
                            Browser_launched url (browser_launches w)]
                         @ loop_served w (incoming w) @ [Closed ('''', 8088), Traceback e]\<rparr>)
                 else (case faults w Shutdown_print of
                    Some e' \<Rightarrow>
                      (Exited (uncaught_status e'),
                       \<lparr>ports_in_use = P, server = Some Stopped,
                        trace = [Bound ('''', 8088), Printed startup_message,
                                 Browser_launched url (browser_launches w)]
                         @ loop_served w (incoming w) @ [Closed ('''', 8088), Traceback e']\<rparr>)
                  | None \<Rightarrow>
                     (case faults w Shutdown_call of
                        Some e' \<Rightarrow>
                          (Exited (uncaught_status e'),
                           \<lparr>ports_in_use = P, server = Some Stopped,
                            trace = [Bound ('''', 8088), Printed startup_message,
                                     Browser_launched url (browser_launches w)]
                             @ loop_served w (incoming w)
                             @ [Printed shutdown_message, Closed ('''', 8088), Traceback e']\<rparr>)
                      | None \<Rightarrow>
                          (Exited 0,
                           \<lparr>ports_in_use = P, server = Some Stopped,
                            trace = [Bound ('''', 8088), Printed startup_message,
                                     Browser_launched url (browser_launches w)]
                             @ loop_served w (incoming w)
                             @ [Printed shutdown_message, Shutdown_called,
                                Closed ('''', 8088)]\<rparr>))))))"
proof (cases "8088 \<in> P \<or> \<not> bind_permitted w")
  case True
  then show ?thesis by (simp add: main_defs)
next
  case free: False
  show ?thesis
  proof (cases "faults w Startup_print")
    case (Some e)
    with free show ?thesis by (simp add: main_defs)
  next
    case p1: None
    show ?thesis
    proof (cases "faults w Browser_launch")
      case (Some e)
      with free p1 show ?thesis by (simp add: main_defs)
    next
      case br: None
      show ?thesis
      proof (cases "loop_status (incoming w)")
        case Normal
        with free p1 br show ?thesis by (simp add: main_defs)
      next
        case Blocked
        with free p1 br show ?thesis by (simp add: main_defs)
      next
        case (Raised e)
        show ?thesis
        proof (cases "e = KeyboardInterrupt")
          case False
          with free p1 br Raised show ?thesis by (simp add: main_defs)
        next
          case ki: True
          show ?thesis
          proof (cases "faults w Shutdown_print")
            case (Some e')
            with free p1 br Raised ki show ?thesis by (simp add: main_defs)
          next
            case p2: None
            show ?thesis
            proof (cases "faults w Shutdown_call")
              case (Some e')
              with free p1 br Raised ki p2 show ?thesis by (simp add: main_defs)
            next
              case None
              with free p1 br Raised ki p2 show ?thesis by (simp add: main_defs)
            qed
          qed
        qed
      qed
    qed
  qed
qed

lemma running_holds_port:
  "fst (script w P) = Running \<Longrightarrow> 8088 \<in> ports_in_use (snd (script w P))"
  by (simp add: script_eq split: if_splits option.splits status.splits)

subsection \<open>Interrupt while listening\<close>

text \<open>
  Claim C4.  When the port is free and no library call faults, so that the server
  reaches \<^verbatim>\<open>serve_forever\<close>, and the interrupt arrives there after the requests
  \<open>rs\<close> have been served, the process exits with status 0; the server is \<open>Stopped\<close>
  and its port released; the shutdown line is printed, \<^verbatim>\<open>shutdown\<close> is called and
  the socket closed, in this order, and the trace holds no stack trace.
\<close>

theorem interrupt_while_listening:
  assumes "8088 \<notin> P" and "bind_permitted w"
    and "\<forall>c. faults w c = None"
    and "incoming w = map Connection rs @ Raise KeyboardInterrupt # later"
  shows "script w P =
    (Exited 0,
     \<lparr>ports_in_use = P, server = Some Stopped,
      trace = [Bound ('''', 8088),
               Printed ''Serving documentation at http://localhost:8088/swagger.html'',
               Browser_launched ''http://localhost:8088/swagger.html'' (browser_launches w)]
            @ map (\<lambda>r. Served r (Handler w r)) rs
            @ [Printed (CHR 0x0A # ''Shutting down server...''), Shutdown_called,
               Closed ('''', 8088)]\<rparr>)"
  using assms
  by (simp add: main_defs url_eq startup_message_eq shutdown_message_def
      loop_status_connections loop_served_connections)

theorem interrupt_while_listening_witness:
  "script (sample_world\<lparr>incoming :=
       [Connection (''GET'', ''/swagger.html''), Raise KeyboardInterrupt]\<rparr>) {} =
    (Exited 0,
     \<lparr>ports_in_use = {}, server = Some Stopped,
      trace = [Bound ('''', 8088),
               Printed ''Serving documentation at http://localhost:8088/swagger.html'',
               Browser_launched ''http://localhost:8088/swagger.html'' True,
               Served (''GET'', ''/swagger.html'') ''/srv/docs/swagger.html'',
               Printed (CHR 0x0A # ''Shutting down server...''), Shutdown_called,
               Closed ('''', 8088)]\<rparr>)"
  using interrupt_while_listening [of "{}"
      "sample_world\<lparr>incoming :=
         [Connection (''GET'', ''/swagger.html''), Raise KeyboardInterrupt]\<rparr>"
      "[(''GET'', ''/swagger.html'')]" "[]"]
  by (simp add: sample_defs)

subsection \<open>The port is in use\<close>

text \<open>
  Claim C5.  When port 8088 is already in use the constructor raises \<open>BindError\<close>,
  nothing catches it, and the process ends with a stack trace and exit status 1 before
  anything is printed or served.  In particular, while a first instance is running
  (it has not shut down), a second instance started on the same machine ends so.
\<close>

theorem bind_fails_when_port_in_use:
  "(8088 \<in> P \<longrightarrow>
      script w P =
        (Exited 1, \<lparr>ports_in_use = P, server = None, trace = [Traceback BindError]\<rparr>))
   \<and> (fst (script w1 P1) = Running \<longrightarrow>
      script w2 (ports_in_use (snd (script w1 P1))) =
        (Exited 1, \<lparr>ports_in_use = ports_in_use (snd (script w1 P1)), server = None,
                    trace = [Traceback BindError]\<rparr>))"
  using running_holds_port [of w1 P1] by (simp add: script_eq)

theorem bind_fails_when_port_in_use_witness:
  "script sample_world {8088} =
     (Exited 1, \<lparr>ports_in_use = {8088}, server = None, trace = [Traceback BindError]\<rparr>)
   \<and> fst (script sample_world {}) = Running
   \<and> ports_in_use (snd (script sample_world {})) = {8088}
   \<and> script sample_world (ports_in_use (snd (script sample_world {}))) =
       (Exited 1, \<lparr>ports_in_use = ports_in_use (snd (script sample_world {})),
                   server = None, trace = [Traceback BindError]\<rparr>)"
proof -
  note inst = bind_fails_when_port_in_use
    [of "{8088}" sample_world sample_world "{}" sample_world]
  have first: "script sample_world {8088} =
     (Exited 1, \<lparr>ports_in_use = {8088}, server = None, trace = [Traceback BindError]\<rparr>)"
    using conjunct1 [OF inst] by blast
  have running: "fst (script sample_world {}) = Running"
    by (simp add: sample_world_running)
  have ports: "ports_in_use (snd (script sample_world {})) = {8088}"
    by (simp add: sample_world_running)
  have second: "script sample_world (ports_in_use (snd (script sample_world {}))) =
       (Exited 1, \<lparr>ports_in_use = ports_in_use (snd (script sample_world {})),
                   server = None, trace = [Traceback BindError]\<rparr>)"
    using conjunct2 [OF inst] running by blast
  show ?thesis using first running ports second by blast
qed

subsection \<open>A missing root directory\<close>

text \<open>
  Claim C6 as stated fails: nothing in the script looks at the root directory, and no
  exception of \<^verbatim>\<open>main\<close> is a configuration error.  In the sample world with an
  empty file system the root directory does not exist, yet the server starts, answers
  a request and keeps running.
\<close>

theorem missing_root_counterexample:
  "filesystem (sample_world\<lparr>filesystem := Map.empty\<rparr>)
     (DIRECTORY (sample_world\<lparr>filesystem := Map.empty\<rparr>)) = None
   \<and> script (sample_world\<lparr>filesystem := Map.empty,
                incoming := [Connection (''GET'', ''/swagger.html'')]\<rparr>) {} =
      (Running,
       \<lparr>ports_in_use = {8088}, server = Some Listening,
        trace = [Bound ('''', 8088),
                 Printed ''Serving documentation at http://localhost:8088/swagger.html'',
                 Browser_launched ''http://localhost:8088/swagger.html'' True,
                 Served (''GET'', ''/swagger.html'') ''/srv/docs/swagger.html'']\<rparr>)"
  by (simp add: script_eq url_eq startup_message_eq sample_defs)

text \<open>
  Claim C6, amended.  When the root directory does not exist, start does not fail on
  that account: provided the port can be bound and the two startup calls return, the
  listener is bound, the startup line printed, the browser call made, and the accept
  loop entered, where every request is dispatched to the handler.
\<close>

theorem missing_root_does_not_fail_start:
  assumes "filesystem w (DIRECTORY w) = None"
    and "8088 \<notin> P" and "bind_permitted w"
    and "faults w Startup_print = None" and "faults w Browser_launch = None"
    and "incoming w = map Connection rs"
  shows "script w P =
      (Running,
       \<lparr>ports_in_use = insert 8088 P, server = Some Listening,
        trace = [Bound ('''', 8088),
                 Printed ''Serving documentation at http://localhost:8088/swagger.html'',
                 Browser_launched ''http://localhost:8088/swagger.html'' (browser_launches w)]
              @ map (\<lambda>r. Served r (Handler w r)) rs\<rparr>)"
  using assms(2-6)
  by (simp add: script_eq url_eq startup_message_eq loop_status_only_connections
      loop_served_only_connections)

theorem missing_root_does_not_fail_start_witness:
  "filesystem (sample_world\<lparr>filesystem := Map.empty, incoming := map Connection []\<rparr>)
     (DIRECTORY (sample_world\<lparr>filesystem := Map.empty, incoming := map Connection []\<rparr>)) = None
   \<and> script (sample_world\<lparr>filesystem := Map.empty, incoming := map Connection []\<rparr>) {} =
      (Running,
       \<lparr>ports_in_use = {8088}, server = Some Listening,
        trace = [Bound ('''', 8088),
                 Printed ''Serving documentation at http://localhost:8088/swagger.html'',
                 Browser_launched ''http://localhost:8088/swagger.html'' True]\<rparr>)"
proof -
  let ?w = "sample_world\<lparr>filesystem := Map.empty, incoming := map Connection []\<rparr>"
  have missing: "filesystem ?w (DIRECTORY ?w) = None"
    by (simp add: sample_world_def)
  have free: "8088 \<notin> ({} :: nat set)" by simp
  have permitted: "bind_permitted ?w" by (simp add: sample_world_def)
  have no_faults: "faults ?w Startup_print = None" "faults ?w Browser_launch = None"
    by (simp_all add: sample_world_def)
  have arrivals: "incoming ?w = map Connection []" by simp
  have launches: "browser_launches ?w" by (simp add: sample_world_def)
  from missing_root_does_not_fail_start [OF missing free permitted no_faults arrivals]
  have "script ?w {} =
      (Running,
       \<lparr>ports_in_use = insert 8088 {}, server = Some Listening,
        trace = [Bound ('''', 8088),
                 Printed ''Serving documentation at http://localhost:8088/swagger.html'',
                 Browser_launched ''http://localhost:8088/swagger.html'' (browser_launches ?w)]
              @ map (\<lambda>r. Served r (Handler ?w r)) []\<rparr>)" .
  then have "script ?w {} =
      (Running,
       \<lparr>ports_in_use = {8088}, server = Some Listening,
        trace = [Bound ('''', 8088),
                 Printed ''Serving documentation at http://localhost:8088/swagger.html'',
                 Browser_launched ''http://localhost:8088/swagger.html'' True]\<rparr>)"
    using launches by simp
  with missing show ?thesis by (rule conjI)
qed

subsection \<open>The browser does not launch\<close>



subsection \<open>A successful start\<close>

text \<open>
  Claim C8.  When the constructor succeeds and the startup print returns, the first
  two effects of the run are the bind to \<^verbatim>\<open>("", 8088)\<close>, the empty host standing for
  all interfaces, and then the line that states the URL; everything else, every
  response included, comes after.  The directory handed to the handler is
  \<open>DIRECTORY\<close>, the directory that contains the script file.
\<close>

theorem start_binds_and_announces:
  assumes "8088 \<notin> P" and "bind_permitted w" and "faults w Startup_print = None"
    and "script_file w \<noteq> []"
  shows "(\<exists>rest. trace (snd (script w P)) =
            Bound ('''', 8088)
            # Printed ''Serving documentation at http://localhost:8088/swagger.html''
            # rest)
       \<and> Handler w = base_handler w (filesystem w) (str_path (DIRECTORY w))
       \<and> script_file w = DIRECTORY w @ [last (script_file w)]"
proof (intro conjI)
  show "\<exists>rest. trace (snd (script w P)) =
            Bound ('''', 8088)
            # Printed ''Serving documentation at http://localhost:8088/swagger.html''
            # rest"
    using assms(1-3)
    by (simp add: script_eq startup_message_eq split: option.splits status.splits)
  show "Handler w = base_handler w (filesystem w) (str_path (DIRECTORY w))"
    by (simp add: Handler_def)
  show "script_file w = DIRECTORY w @ [last (script_file w)]"
    using assms(4) by (simp add: DIRECTORY_def parent_def)
qed

theorem start_binds_and_announces_witness:
  "(\<exists>rest. trace (snd (script sample_world {})) =
            Bound ('''', 8088)
            # Printed ''Serving documentation at http://localhost:8088/swagger.html''
            # rest)
   \<and> Handler sample_world =
       base_handler sample_world (filesystem sample_world) (str_path (DIRECTORY sample_world))
   \<and> script_file sample_world = DIRECTORY sample_world @ [last (script_file sample_world)]
   \<and> str_path (DIRECTORY sample_world) = ''/srv/docs''"
proof -
  have free: "8088 \<notin> ({} :: nat set)" by simp
  have permitted: "bind_permitted sample_world" by (simp add: sample_world_def)
  have prints: "faults sample_world Startup_print = None" by (simp add: sample_world_def)
  have named: "script_file sample_world \<noteq> []" by (simp add: sample_world_def)
  have dir: "str_path (DIRECTORY sample_world) = ''/srv/docs''"
    by (simp add: sample_defs)
  from start_binds_and_announces [OF free permitted prints named] dir
  show ?thesis by blast
qed

subsection \<open>Interrupt before the accept loop\<close>

text \<open>
  Claim C10.  The handler for \<^verbatim>\<open>KeyboardInterrupt\<close> covers \<^verbatim>\<open>serve_forever\<close>
  only.  When the interrupt is delivered after the socket is bound, during the startup
  print or during the browser launch, it leaves \<^verbatim>\<open>main\<close> uncaught: the
  \<^verbatim>\<open>with\<close> statement closes the socket, the interpreter prints a stack trace and the
  exit status is 130, not 0; the shutdown line is not printed and \<^verbatim>\<open>shutdown\<close>
  is not called.
\<close>

theorem interrupt_before_accept_loop:
  assumes "8088 \<notin> P" and "bind_permitted w"
    and "faults w Startup_print = Some KeyboardInterrupt
       \<or> faults w Startup_print = None \<and> faults w Browser_launch = Some KeyboardInterrupt"
  shows "script w P =
    (Exited 130,
     \<lparr>ports_in_use = P, server = Some Stopped,
      trace = Bound ('''', 8088)
            # (if faults w Startup_print = None
               then [Printed ''Serving documentation at http://localhost:8088/swagger.html'']
               else [])
            @ [Closed ('''', 8088), Traceback KeyboardInterrupt]\<rparr>)"
  using assms by (auto simp add: script_eq startup_message_eq uncaught_status_def)

theorem interrupt_before_accept_loop_witness:
  "script (sample_world\<lparr>faults := [Browser_launch \<mapsto> KeyboardInterrupt]\<rparr>) {} =
    (Exited 130,
     \<lparr>ports_in_use = {}, server = Some Stopped,
      trace = [Bound ('''', 8088),
               Printed ''Serving documentation at http://localhost:8088/swagger.html'',
               Closed ('''', 8088), Traceback KeyboardInterrupt]\<rparr>)
   \<and> script (sample_world\<lparr>faults := [Startup_print \<mapsto> KeyboardInterrupt]\<rparr>) {} =
    (Exited 130,
     \<lparr>ports_in_use = {}, server = Some Stopped,
      trace = [Bound ('''', 8088), Closed ('''', 8088), Traceback KeyboardInterrupt]\<rparr>)"
proof -
  let ?w1 = "sample_world\<lparr>faults := [Browser_launch \<mapsto> KeyboardInterrupt]\<rparr>"
  let ?w2 = "sample_world\<lparr>faults := [Startup_print \<mapsto> KeyboardInterrupt]\<rparr>"
  have free: "8088 \<notin> ({} :: nat set)" by simp
  have permitted: "bind_permitted ?w1" "bind_permitted ?w2" by (simp_all add: sample_world_def)
  have during_launch: "faults ?w1 Startup_print = Some KeyboardInterrupt
       \<or> faults ?w1 Startup_print = None \<and> faults ?w1 Browser_launch = Some KeyboardInterrupt"
    by simp
  have during_print: "faults ?w2 Startup_print = Some KeyboardInterrupt
       \<or> faults ?w2 Startup_print = None \<and> faults ?w2 Browser_launch = Some KeyboardInterrupt"
    by simp
  have printed: "faults ?w1 Startup_print = None" and not_printed: "faults ?w2 Startup_print \<noteq> None"
    by simp_all
  from interrupt_before_accept_loop [OF free permitted(1) during_launch]
    interrupt_before_accept_loop [OF free permitted(2) during_print]
    printed not_printed
  show ?thesis by simp
qed

end
